theory Spec2Isabelle
  imports Complex_Main
begin

section \<open>Tensors, errors and results\<close>

text \<open>
  The model follows \<^verbatim>\<open>opensora/models/diffusion/latte/modeling_latte.py\<close>.
  A tensor is a nested list in row-major order, one list level per axis. Floating-point
  numbers are read as reals and arithmetic is exact, with two exceptions in the dense
  attention path: the constants of the mask bias and the sum of a score and a bias entry
  are rounded to the dtype of the tensor, and the attention weights, the one place where
  the source tests for not-a-number, carry an explicit \<open>NaN\<close> value.
  Nested lists cannot record the inner sizes of a tensor with an axis of size zero;
  \<open>shape3\<close> reads such a missing size as 0.

  Every exception of the source is an \<open>error\<close> value: a function that can raise returns
  \<open>error + 'a\<close> with \<open>Inl\<close> for the exception. \<open>RuntimeError\<close> also stands for the shape
  errors of the tensor library (a failed broadcast, reshape, view or cat), \<open>EinopsError\<close>
  for a failed \<^verbatim>\<open>rearrange\<close>, which divides by the given batch size first.
\<close>

datatype error =
  AssertionError | TypeError | NameError | ValueError | AttributeError
  | ZeroDivisionError | RuntimeError | EinopsError

type_synonym vec = "real list"
type_synonym mat = "real list list"
type_synonym t3 = "real list list list"
type_synonym t4 = "real list list list list"
type_synonym t5 = "real list list list list list"

definition bindr :: "error + 'a \<Rightarrow> ('a \<Rightarrow> error + 'b) \<Rightarrow> error + 'b" where
  "bindr r f = (case r of Inl e \<Rightarrow> Inl e | Inr v \<Rightarrow> f v)"

primrec mapM :: "('a \<Rightarrow> error + 'b) \<Rightarrow> 'a list \<Rightarrow> error + 'b list" where
  "mapM f [] = Inr []"
| "mapM f (x # xs) = bindr (f x) (\<lambda>y. bindr (mapM f xs) (\<lambda>ys. Inr (y # ys)))"

text \<open>\<open>pieces n k xs\<close> cuts \<open>xs\<close> into \<open>n\<close> consecutive pieces of \<open>k\<close> elements: the row-major
  reading of a flat buffer as an \<open>n \<times> k\<close> array, which is what reshape and view do.\<close>

definition pieces :: "nat \<Rightarrow> nat \<Rightarrow> 'a list \<Rightarrow> 'a list list" where
  "pieces n k xs = map (\<lambda>i. take k (drop (i * k) xs)) [0..<n]"

definition shape3 :: "'a list list list \<Rightarrow> nat \<times> nat \<times> nat" where
  "shape3 x =
     (length x,
      (case x of [] \<Rightarrow> 0 | xb # _ \<Rightarrow> length xb),
      (case x of [] \<Rightarrow> 0 | xb # _ \<Rightarrow> (case xb of [] \<Rightarrow> 0 | r # _ \<Rightarrow> length r)))"

definition flat3 :: "'a list list list \<Rightarrow> 'a list" where
  "flat3 x = concat (concat x)"

definition flat4 :: "'a list list list list \<Rightarrow> 'a list" where
  "flat4 x = concat (concat (concat x))"

definition flat5 :: "'a list list list list list \<Rightarrow> 'a list" where
  "flat5 x = concat (concat (concat (concat x)))"

definition reshape3 :: "nat \<Rightarrow> nat \<Rightarrow> nat \<Rightarrow> 'a list \<Rightarrow> error + 'a list list list" where
  "reshape3 b n c xs =
     (if length xs = b * n * c then Inr (map (pieces n c) (pieces b (n * c) xs))
      else Inl RuntimeError)"

definition reshape4 ::
  "nat \<Rightarrow> nat \<Rightarrow> nat \<Rightarrow> nat \<Rightarrow> 'a list \<Rightarrow> error + 'a list list list list" where
  "reshape4 b h n d xs =
     (if length xs = b * h * n * d
      then Inr (map (\<lambda>p. map (pieces n d) (pieces h (n * d) p)) (pieces b (h * n * d) xs))
      else Inl RuntimeError)"

text \<open>Elementwise operations broadcast as the tensor library does: at every axis the two
  sizes are equal or one of them is 1, otherwise the operation raises.\<close>

definition bcast ::
  "('a \<Rightarrow> 'b \<Rightarrow> error + 'c) \<Rightarrow> 'a list \<Rightarrow> 'b list \<Rightarrow> error + 'c list" where
  "bcast f xs ys =
     (if length xs = length ys then mapM (\<lambda>(x, y). f x y) (zip xs ys)
      else if length ys = 1 then mapM (\<lambda>x. f x (hd ys)) xs
      else if length xs = 1 then mapM (f (hd xs)) ys
      else Inl RuntimeError)"

definition ew1 :: "(real \<Rightarrow> real \<Rightarrow> real) \<Rightarrow> vec \<Rightarrow> vec \<Rightarrow> error + vec" where
  "ew1 g = bcast (\<lambda>a b. Inr (g a b))"

definition ew2 :: "(real \<Rightarrow> real \<Rightarrow> real) \<Rightarrow> mat \<Rightarrow> mat \<Rightarrow> error + mat" where
  "ew2 g = bcast (ew1 g)"

definition ew3 :: "(real \<Rightarrow> real \<Rightarrow> real) \<Rightarrow> t3 \<Rightarrow> t3 \<Rightarrow> error + t3" where
  "ew3 g = bcast (ew2 g)"

definition ew4 :: "(real \<Rightarrow> real \<Rightarrow> real) \<Rightarrow> t4 \<Rightarrow> t4 \<Rightarrow> error + t4" where
  "ew4 g = bcast (ew3 g)"

definition ew5 :: "(real \<Rightarrow> real \<Rightarrow> real) \<Rightarrow> t5 \<Rightarrow> t5 \<Rightarrow> error + t5" where
  "ew5 g = bcast (ew4 g)"

definition unsqueeze1 :: "'a list \<Rightarrow> 'a list list" where
  "unsqueeze1 xs = map (\<lambda>x. [x]) xs"

text \<open>\<^verbatim>\<open>modulate(x, shift, scale) = x * (1 + scale.unsqueeze(1)) + shift.unsqueeze(1)\<close>,
  with \<open>x\<close> of shape (B, N, D) and \<open>shift\<close>, \<open>scale\<close> of shape (B, D).\<close>

definition modulate :: "t3 \<Rightarrow> mat \<Rightarrow> mat \<Rightarrow> error + t3" where
  "modulate x shift scale =
     bindr (ew3 (*) x (map (map (map (\<lambda>s. 1 + s))) (unsqueeze1 scale)))
       (\<lambda>y. ew3 (+) y (unsqueeze1 shift))"

text \<open>\<^verbatim>\<open>nn.Linear\<close> with weight \<open>W\<close> (out \<times> in) and bias \<open>b\<close>, applied to one row; \<^verbatim>\<open>nn.SiLU\<close>.\<close>

definition dot :: "vec \<Rightarrow> vec \<Rightarrow> real" where
  "dot u v = sum_list (map2 (*) u v)"

definition linear :: "mat \<Rightarrow> vec \<Rightarrow> vec \<Rightarrow> error + vec" where
  "linear W b x =
     (if list_all (\<lambda>w. length w = length x) W \<and> length b = length W
      then Inr (map2 (\<lambda>w bi. dot w x + bi) W b)
      else Inl RuntimeError)"

definition linear3 :: "mat \<Rightarrow> vec \<Rightarrow> t3 \<Rightarrow> error + t3" where
  "linear3 W b x = mapM (mapM (linear W b)) x"

definition silu :: "real \<Rightarrow> real" where
  "silu v = v / (1 + exp (- v))"

text \<open>\<^verbatim>\<open>t.chunk(n, dim=1)\<close> on a matrix whose rows have \<open>k\<close> entries: pieces of
  \<open>ceil(k / n)\<close> columns, as many as are needed (\<open>n\<close> empty ones when \<open>k = 0\<close>).\<close>

definition chunk_dim1 :: "nat \<Rightarrow> nat \<Rightarrow> mat \<Rightarrow> mat list" where
  "chunk_dim1 n k m =
     (let s = (k + n - 1) div n;
          cnt = (if k = 0 then n else (k + s - 1) div s)
      in map (\<lambda>i. map (\<lambda>r. take s (drop (i * s) r)) m) [0..<cnt])"

text \<open>\<^verbatim>\<open>adaLN_modulation = nn.Sequential(nn.SiLU(), nn.Linear(hidden, n * hidden))\<close>
  followed by \<^verbatim>\<open>.chunk(n, dim=1)\<close>.\<close>

definition adaLN_modulation :: "nat \<Rightarrow> mat \<Rightarrow> vec \<Rightarrow> mat \<Rightarrow> error + mat list" where
  "adaLN_modulation n W b c =
     bindr (mapM (\<lambda>r. linear W b (map silu r)) c) (\<lambda>m. Inr (chunk_dim1 n (length W) m))"

section \<open>Attention\<close>

datatype dtype = Float32 | Float64 | Float16 | BFloat16

text \<open>
  The values of a dtype are the binary floating-point numbers with \<open>mantissa_bits\<close>
  significant bits. \<open>cast dt x\<close> is the nearest of them to \<open>x\<close>, ties to even: \<open>ulp p x\<close> is
  the spacing of the numbers with \<open>p\<close> significant bits in the binade of \<open>x\<close>, and \<open>x\<close> is
  rounded to a multiple of it. The exponent range is not modelled: there is no overflow
  to infinity and no subnormal number.
\<close>

definition mantissa_bits :: "dtype \<Rightarrow> nat" where
  "mantissa_bits dt = (case dt of Float32 \<Rightarrow> 24 | Float64 \<Rightarrow> 53 | Float16 \<Rightarrow> 11 | BFloat16 \<Rightarrow> 8)"

definition round_even :: "real \<Rightarrow> int" where
  "round_even y =
     (if y - of_int \<lfloor>y\<rfloor> < 1 / 2 then \<lfloor>y\<rfloor>
      else if 1 / 2 < y - of_int \<lfloor>y\<rfloor> then \<lfloor>y\<rfloor> + 1
      else if even \<lfloor>y\<rfloor> then \<lfloor>y\<rfloor> else \<lfloor>y\<rfloor> + 1)"

definition ulp :: "nat \<Rightarrow> real \<Rightarrow> real" where
  "ulp p x = 2 powr of_int (\<lfloor>log 2 \<bar>x\<bar>\<rfloor> - int p + 1)"

definition cast :: "dtype \<Rightarrow> real \<Rightarrow> real" where
  "cast dt x =
     (if x = 0 then 0
      else ulp (mantissa_bits dt) x * of_int (round_even (x / ulp (mantissa_bits dt) x)))"

datatype fl = Fin real | NaN

datatype sdp_kernel = FlashKernel | MemEfficientKernel

text \<open>
  The optional kernels are bound by \<^verbatim>\<open>try: from ... import ... except: ..._IS_AVAILABLE = False\<close>:
  after a failed import the name is unbound, which is \<open>None\<close> here. The fused
  \<^verbatim>\<open>F.scaled_dot_product_attention\<close> takes the kernel selected by \<^verbatim>\<open>sdp_kernel(...)\<close>,
  q, k, v, the optional mask, the dropout probability and the scale.
\<close>

record backends =
  parallel_rebased :: "(t4 \<Rightarrow> t4 \<Rightarrow> t4 \<Rightarrow> real \<Rightarrow> bool \<Rightarrow> bool \<Rightarrow> error + t4) option"
  ring_flash_attn_cuda :: "(t4 \<Rightarrow> t4 \<Rightarrow> t4 \<Rightarrow> bool \<Rightarrow> nat \<Rightarrow> error + t4) option"
  scaled_dot_product_attention ::
    "sdp_kernel \<Rightarrow> t4 \<Rightarrow> t4 \<Rightarrow> t4 \<Rightarrow> t4 option \<Rightarrow> real \<Rightarrow> real \<Rightarrow> error + t4"

text \<open>
  The fields of an \<^verbatim>\<open>Attention\<close> module. \<open>qkv_w\<close>, \<open>qkv_b\<close>, \<open>proj_w\<close>, \<open>proj_b\<close> are the two
  \<^verbatim>\<open>nn.Linear\<close> layers; \<open>attn_drop\<close> and \<open>proj_drop\<close> are the two \<^verbatim>\<open>nn.Dropout\<close> layers as
  functions (the identity in evaluation mode and whenever p = 0, which is how
  \<^verbatim>\<open>TransformerBlock\<close> builds them); \<open>rope\<close> is the \<^verbatim>\<open>VisionRotaryEmbeddingFast\<close> instance,
  whose source is not part of this file; \<open>dtype\<close> is the dtype of the parameters, hence
  of q.
\<close>

record Attention =
  num_heads :: nat
  scale :: real
  attention_mode :: string
  attention_pe_mode :: "string option"
  qkv_w :: mat
  qkv_b :: vec
  proj_w :: mat
  proj_b :: vec
  attn_drop :: "t4 \<Rightarrow> t4"
  attn_drop_p :: real
  proj_drop :: "t3 \<Rightarrow> t3"
  eps :: real
  causal :: bool
  ring_bucket_size :: nat
  hw :: "nat \<times> nat"
  rope :: "(t5 \<Rightarrow> error + t5) option"
  dtype :: dtype

text \<open>
  \<^verbatim>\<open>Attention.__init__\<close>. The only checks are the assertion on \<open>dim % num_heads\<close> and the
  arithmetic of \<^verbatim>\<open>head_dim ** -0.5\<close>; \<open>attention_mode\<close> is stored as given and the
  availability flags are not consulted. The initial values of the layers and the rotary
  encoder (built only for \<^verbatim>\<open>'2d_rope'\<close>) are arguments.
\<close>

definition Attention_init ::
  "nat \<Rightarrow> nat \<Rightarrow> string \<Rightarrow> string option \<Rightarrow> nat \<times> nat \<Rightarrow> real \<Rightarrow> bool \<Rightarrow> nat
     \<Rightarrow> Attention \<Rightarrow> error + Attention" where
  "Attention_init dm heads mode pe_mode hw0 eps0 causal0 bucket layers =
     (if heads = 0 then Inl ZeroDivisionError
      else if dm mod heads \<noteq> 0 then Inl AssertionError
      else if dm div heads = 0 then Inl ZeroDivisionError
      else Inr (layers\<lparr>
        num_heads := heads,
        scale := 1 / sqrt (real (dm div heads)),
        attention_mode := mode,
        attention_pe_mode := pe_mode,
        eps := eps0,
        causal := causal0,
        ring_bucket_size := bucket,
        hw := hw0,
        rope := (if pe_mode = Some ''2d_rope'' then rope layers else None)\<rparr>))"

text \<open>\<^verbatim>\<open>make_attn_bias\<close>: two \<^verbatim>\<open>torch.where\<close> passes over the mask. The result has the
  dtype of the mask, so the Python constant \<^verbatim>\<open>-1e8\<close> or \<^verbatim>\<open>-1e4\<close> is cast to it.\<close>

definition attn_bias_entry :: "dtype \<Rightarrow> real \<Rightarrow> real" where
  "attn_bias_entry dt m =
     (let b1 = (if m = 0 then cast dt (if dt = Float32 then - 100000000 else - 10000) else m)
      in if m = 1 then 0 else b1)"

definition make_attn_bias :: "dtype \<Rightarrow> t4 \<Rightarrow> t4" where
  "make_attn_bias dt attn_mask = map (map (map (map (attn_bias_entry dt)))) attn_mask"

text \<open>
  The dense path between the scores and the product with v:
  \<^verbatim>\<open>attn = attn + attn_bias; attn = attn.softmax(dim=-1);
  if torch.any(torch.isnan(attn)): attn = attn.masked_fill(torch.isnan(attn), 0.)\<close>.
  It is modelled on scores that may already be NaN. A softmax row with a NaN score is NaN
  throughout. The bias is broadcast into the scores; a bias that would enlarge the
  scores instead makes the later product with v or the reshape raise, so that case is
  \<open>RuntimeError\<close> here as well. The mask has been converted to the dtype of q, so the sum
  \<open>fadd\<close> of a score and a bias entry is taken in that dtype: it is the exact sum rounded
  by \<open>cast\<close>. The scores are values of the dtype, so adding the bias 0 returns the score
  itself.
\<close>

definition is_nan :: "fl \<Rightarrow> bool" where
  "is_nan v = (case v of NaN \<Rightarrow> True | Fin _ \<Rightarrow> False)"

definition fl_val :: "fl \<Rightarrow> real" where
  "fl_val v = (case v of Fin r \<Rightarrow> r | NaN \<Rightarrow> 0)"

definition fadd :: "dtype \<Rightarrow> fl \<Rightarrow> real \<Rightarrow> fl" where
  "fadd dt v b =
     (case v of
        Fin r \<Rightarrow> (if b = 0 then Fin r else Fin (cast dt (r + b)))
      | NaN \<Rightarrow> NaN)"

definition bcast_into ::
  "('a \<Rightarrow> 'b \<Rightarrow> error + 'a) \<Rightarrow> 'a list \<Rightarrow> 'b list \<Rightarrow> error + 'a list" where
  "bcast_into f xs ys =
     (if length ys = length xs then mapM (\<lambda>(x, y). f x y) (zip xs ys)
      else if length ys = 1 then mapM (\<lambda>x. f x (hd ys)) xs
      else Inl RuntimeError)"

definition add_bias ::
  "dtype \<Rightarrow> fl list list list list \<Rightarrow> t4 \<Rightarrow> error + fl list list list list" where
  "add_bias dt = bcast_into (bcast_into (bcast_into (bcast_into (\<lambda>a b. Inr (fadd dt a b)))))"

definition softmax :: "fl list \<Rightarrow> fl list" where
  "softmax row =
     (if list_ex is_nan row then map (\<lambda>_. NaN) row
      else map (\<lambda>v. Fin (exp (fl_val v) / sum_list (map (\<lambda>u. exp (fl_val u)) row))) row)"

definition any_nan :: "fl list list list list \<Rightarrow> bool" where
  "any_nan attn = list_ex (list_ex (list_ex (list_ex is_nan))) attn"

definition masked_fill_nan :: "fl list list list list \<Rightarrow> fl list list list list" where
  "masked_fill_nan attn = map (map (map (map (\<lambda>v. if is_nan v then Fin 0 else v)))) attn"

definition nan_recovery :: "fl list list list list \<Rightarrow> fl list list list list" where
  "nan_recovery attn = (if any_nan attn then masked_fill_nan attn else attn)"

definition dense_weights ::
  "dtype \<Rightarrow> fl list list list list \<Rightarrow> t4 option \<Rightarrow> error + fl list list list list" where
  "dense_weights dt attn attn_mask =
     bindr (case attn_mask of
              None \<Rightarrow> Inr attn
            | Some mk \<Rightarrow> add_bias dt attn (make_attn_bias dt mk))
       (\<lambda>a. Inr (nan_recovery (map (map (map softmax)) a)))"

text \<open>
  \<^verbatim>\<open>Attention.forward\<close>. The projection to q, k and v:
  \<^verbatim>\<open>self.qkv(x).reshape(B, N, 3, heads, C // heads).permute(2, 0, 3, 1, 4)\<close> and
  \<^verbatim>\<open>unbind(0)\<close>; \<open>split_qkv j\<close> is the j-th of the three, of shape (B, heads, N, C // heads).
\<close>

definition split_qkv :: "nat \<Rightarrow> nat \<Rightarrow> nat \<Rightarrow> t3 \<Rightarrow> t4" where
  "split_qkv j heads hdim y =
     map (\<lambda>yb. map (\<lambda>h. map (\<lambda>r. take hdim (drop ((j * heads + h) * hdim) r)) yb) [0..<heads]) y"

definition qkv_proj :: "Attention \<Rightarrow> t3 \<Rightarrow> error + (t4 \<times> t4 \<times> t4)" where
  "qkv_proj a x =
     (case shape3 x of (B, N, C) \<Rightarrow>
        bindr (linear3 (qkv_w a) (qkv_b a) x) (\<lambda>y.
          if num_heads a = 0 then Inl ZeroDivisionError
          else if length (flat3 y) \<noteq> B * N * 3 * num_heads a * (C div num_heads a)
          then Inl RuntimeError
          else Inr (split_qkv 0 (num_heads a) (C div num_heads a) y,
                    split_qkv 1 (num_heads a) (C div num_heads a) y,
                    split_qkv 2 (num_heads a) (C div num_heads a) y)))"

text \<open>The rotary branch: \<^verbatim>\<open>self.rope(q.view(B, heads, -1, hw[0] * hw[1], C // heads))
  .view(B, heads, N, C // heads)\<close>.\<close>

definition apply_rope :: "Attention \<Rightarrow> nat \<Rightarrow> nat \<Rightarrow> nat \<Rightarrow> t4 \<Rightarrow> error + t4" where
  "apply_rope a B N C q =
     (case rope a of
        None \<Rightarrow> Inl AttributeError
      | Some f \<Rightarrow>
          if fst (hw a) * snd (hw a) = 0 \<or> N mod (fst (hw a) * snd (hw a)) \<noteq> 0
          then Inl RuntimeError
          else bindr
                 (f (map (map (pieces (N div (fst (hw a) * snd (hw a))) (fst (hw a) * snd (hw a)))) q))
                 (\<lambda>r. reshape4 B (num_heads a) N (C div num_heads a) (flat5 r)))"

text \<open>The dense strategy: \<^verbatim>\<open>attn = (q @ k.transpose(-2, -1)) * self.scale\<close>, the bias,
  softmax and recovery of \<open>dense_weights\<close>, dropout, and
  \<^verbatim>\<open>(attn @ v).transpose(1, 2).reshape(B, N, C)\<close>.\<close>

definition qk_scores :: "real \<Rightarrow> t4 \<Rightarrow> t4 \<Rightarrow> t4" where
  "qk_scores sc q k =
     map2 (map2 (\<lambda>qh kh. map (\<lambda>qi. map (\<lambda>kj. dot qi kj * sc) kh) qh)) q k"

definition matmul :: "mat \<Rightarrow> mat \<Rightarrow> mat" where
  "matmul A V = map (\<lambda>a. map (\<lambda>col. dot a col) (transpose V)) A"

definition attention_math ::
  "Attention \<Rightarrow> nat \<Rightarrow> nat \<Rightarrow> nat \<Rightarrow> t4 \<Rightarrow> t4 \<Rightarrow> t4 \<Rightarrow> t4 option \<Rightarrow> error + t3" where
  "attention_math a B N C q k v attn_mask =
     bindr (dense_weights (dtype a) (map (map (map (map Fin))) (qk_scores (scale a) q k)) attn_mask)
       (\<lambda>w. reshape3 B N C
              (flat4 (map transpose
                 (map2 (map2 matmul) (attn_drop a (map (map (map (map fl_val))) w)) v))))"

text \<open>The test of the flash branch: \<^verbatim>\<open>attn_mask is None or torch.all(attn_mask.bool())\<close>.\<close>

definition flash_fast_path :: "t4 option \<Rightarrow> bool" where
  "flash_fast_path attn_mask =
     (case attn_mask of
        None \<Rightarrow> True
      | Some mk \<Rightarrow> list_all (list_all (list_all (list_all (\<lambda>v. v \<noteq> 0)))) mk)"

text \<open>The dispatch on \<open>attention_mode\<close>. The last branch is \<^verbatim>\<open>raise NotImplemented\<close>, which
  raises \<open>TypeError\<close> since \<^verbatim>\<open>NotImplemented\<close> is not an exception; a kernel whose import
  failed is an unbound name.\<close>

definition attention_core ::
  "backends \<Rightarrow> Attention \<Rightarrow> nat \<Rightarrow> nat \<Rightarrow> nat \<Rightarrow> t4 \<Rightarrow> t4 \<Rightarrow> t4 \<Rightarrow> t4 option
     \<Rightarrow> error + t3" where
  "attention_core env a B N C q k v attn_mask =
     (if attention_mode a = ''xformers'' then
        bindr (scaled_dot_product_attention env MemEfficientKernel q k v attn_mask
                 (attn_drop_p a) (scale a))
          (\<lambda>y. reshape3 B N C (flat4 y))
      else if attention_mode a = ''flash'' then
        (if flash_fast_path attn_mask then
           bindr (scaled_dot_product_attention env FlashKernel q k v None
                    (attn_drop_p a) (scale a))
             (\<lambda>y. reshape3 B N C (flat4 y))
         else
           bindr (scaled_dot_product_attention env MemEfficientKernel q k v attn_mask
                    (attn_drop_p a) (scale a))
             (\<lambda>y. reshape3 B N C (flat4 y)))
      else if attention_mode a = ''math'' then attention_math a B N C q k v attn_mask
      else if attention_mode a = ''rebased'' then
        (case parallel_rebased env of
           None \<Rightarrow> Inl NameError
         | Some f \<Rightarrow> bindr (f q k v (eps a) True True) (\<lambda>y. reshape3 B N C (flat4 y)))
      else if attention_mode a = ''ring'' then
        (case ring_flash_attn_cuda env of
           None \<Rightarrow> Inl NameError
         | Some f \<Rightarrow>
             bindr (f q k v (causal a) (ring_bucket_size a)) (\<lambda>y. reshape3 B N C (flat4 y)))
      else Inl TypeError)"

definition Attention_forward ::
  "backends \<Rightarrow> Attention \<Rightarrow> t3 \<Rightarrow> t4 option \<Rightarrow> error + t3" where
  "Attention_forward env a x attn_mask =
     (case shape3 x of (B, N, C) \<Rightarrow>
        bindr (qkv_proj a x) (\<lambda>(q0, k0, v).
        bindr (if attention_pe_mode a = Some ''2d_rope''
               then bindr (apply_rope a B N C q0)
                      (\<lambda>q. bindr (apply_rope a B N C k0) (\<lambda>k. Inr (q, k)))
               else Inr (q0, k0)) (\<lambda>(q, k).
        bindr (attention_core env a B N C q k v
                 (map_option (map (\<lambda>mb. concat (replicate (num_heads a) mb))) attn_mask))
          (\<lambda>y.
        bindr (linear3 (proj_w a) (proj_b a) y) (\<lambda>z. Inr (proj_drop a z))))))"

section \<open>Transformer block and final layer\<close>

text \<open>
  \<^verbatim>\<open>TransformerBlock\<close>: \<open>norm1\<close>, \<open>norm2\<close> (\<^verbatim>\<open>nn.LayerNorm\<close>) and \<open>mlp\<close> (timm's \<^verbatim>\<open>Mlp\<close>) are
  library modules, given as functions; the modulation layer is
  \<^verbatim>\<open>adaLN_modulation[-1]\<close> with weight \<open>adaLN_w\<close> and bias \<open>adaLN_b\<close>. The six-fold unpacking
  of \<^verbatim>\<open>.chunk(6, dim=1)\<close> raises \<open>ValueError\<close> when there are not six chunks.
\<close>

record TransformerBlock =
  norm1 :: "t3 \<Rightarrow> error + t3"
  attn :: Attention
  norm2 :: "t3 \<Rightarrow> error + t3"
  mlp :: "t3 \<Rightarrow> error + t3"
  adaLN_w :: mat
  adaLN_b :: vec

definition TransformerBlock_forward ::
  "backends \<Rightarrow> TransformerBlock \<Rightarrow> t3 \<Rightarrow> mat \<Rightarrow> t4 option \<Rightarrow> error + t3" where
  "TransformerBlock_forward env blk x c attn_bias =
     bindr (adaLN_modulation 6 (adaLN_w blk) (adaLN_b blk) c) (\<lambda>ch.
       case ch of
         [shift_msa, scale_msa, gate_msa, shift_mlp, scale_mlp, gate_mlp] \<Rightarrow>
           bindr (norm1 blk x) (\<lambda>n1.
           bindr (modulate n1 shift_msa scale_msa) (\<lambda>m1.
           bindr (Attention_forward env (attn blk) m1 attn_bias) (\<lambda>a.
           bindr (ew3 (*) (unsqueeze1 gate_msa) a) (\<lambda>ga.
           bindr (ew3 (+) x ga) (\<lambda>x1.
           bindr (norm2 blk x1) (\<lambda>n2.
           bindr (modulate n2 shift_mlp scale_mlp) (\<lambda>m2.
           bindr (mlp blk m2) (\<lambda>h.
           bindr (ew3 (*) (unsqueeze1 gate_mlp) h) (\<lambda>gh.
           ew3 (+) x1 gh)))))))))
       | _ \<Rightarrow> Inl ValueError)"

record FinalLayer =
  norm_final :: "t3 \<Rightarrow> error + t3"
  final_adaLN_w :: mat
  final_adaLN_b :: vec
  linear_w :: mat
  linear_b :: vec

definition FinalLayer_forward :: "FinalLayer \<Rightarrow> t3 \<Rightarrow> mat \<Rightarrow> error + t3" where
  "FinalLayer_forward fin x c =
     bindr (adaLN_modulation 2 (final_adaLN_w fin) (final_adaLN_b fin) c) (\<lambda>ch.
       case ch of
         [shift, sc] \<Rightarrow>
           bindr (norm_final fin x) (\<lambda>n.
           bindr (modulate n shift sc) (\<lambda>m. linear3 (linear_w fin) (linear_b fin) m))
       | _ \<Rightarrow> Inl ValueError)"

section \<open>The backbone\<close>

text \<open>
  The fields of a \<^verbatim>\<open>Latte\<close> instance that \<^verbatim>\<open>forward\<close> reads. \<open>x_embedder\<close> is timm's
  \<^verbatim>\<open>PatchEmbed\<close> on the merged (batch, frame) axis; \<open>t_embedder\<close>, \<open>y_embedder\<close> and
  \<open>text_embedding_projection\<close> are the forward functions of the three embedders, the last
  two present only in their mode; \<open>pos_embed\<close> and \<open>temp_embed\<close> are the two position tables
  without their leading axis of size 1; \<open>patch_size\<close> is \<^verbatim>\<open>x_embedder.patch_size[0]\<close>.
  \<open>learn_sigma\<close> of the configuration is an integer (a Python \<open>bool\<close> is 0 or 1).
\<close>

record LatteConfiguration =
  in_channels :: nat
  patch_size :: nat
  learn_sigma :: int

record Latte =
  in_channels :: nat
  out_channels :: nat
  patch_size :: nat
  extras :: int
  training :: bool
  gradient_checkpointing :: bool
  x_embedder :: "t4 \<Rightarrow> error + t3"
  t_embedder :: "vec \<Rightarrow> error + mat"
  y_embedder :: "(int list option \<Rightarrow> bool \<Rightarrow> error + mat) option"
  text_embedding_projection :: "(mat \<Rightarrow> error + mat) option"
  pos_embed :: mat
  temp_embed :: mat
  blocks :: "TransformerBlock list"
  final_layer :: FinalLayer

text \<open>
  \<^verbatim>\<open>initialize_weights\<close> fills every \<^verbatim>\<open>nn.Linear\<close> and the embedders with random values and
  the two position tables with sine and cosine values, and then sets the modulation layer
  of every block, the modulation layer of the final layer and the final projection to
  zero. The model keeps the zeroing and leaves the other fields as they are, so a
  statement about \<open>initialize_weights m\<close> for every \<open>m\<close> covers every outcome of the random
  part.
\<close>

definition zeros_like :: "mat \<Rightarrow> mat" where
  "zeros_like W = map (map (\<lambda>_. 0)) W"

definition initialize_weights :: "Latte \<Rightarrow> Latte" where
  "initialize_weights m =
     m\<lparr>blocks :=
         map (\<lambda>b. b\<lparr>adaLN_w := zeros_like (adaLN_w b), adaLN_b := map (\<lambda>_. 0) (adaLN_b b)\<rparr>)
           (blocks m),
       final_layer :=
         (final_layer m)\<lparr>
           final_adaLN_w := zeros_like (final_adaLN_w (final_layer m)),
           final_adaLN_b := map (\<lambda>_. 0) (final_adaLN_b (final_layer m)),
           linear_w := zeros_like (linear_w (final_layer m)),
           linear_b := map (\<lambda>_. 0) (linear_b (final_layer m))\<rparr>\<rparr>"

text \<open>
  \<^verbatim>\<open>Latte.__init__\<close>, as far as the fields above go: \<^verbatim>\<open>extras = config.learn_sigma\<close>,
  \<^verbatim>\<open>out_channels = in_channels * 2 if learn_sigma else in_channels\<close>, the label embedder
  only for \<open>extras = 2\<close>, the text projection only for \<open>extras = 78\<close>. The freshly built
  submodules are the argument \<open>layers\<close>.
\<close>

definition Latte_init :: "LatteConfiguration \<Rightarrow> Latte \<Rightarrow> Latte" where
  "Latte_init config layers =
     initialize_weights (layers\<lparr>
       in_channels := LatteConfiguration.in_channels config,
       out_channels :=
         (if learn_sigma config \<noteq> 0 then LatteConfiguration.in_channels config * 2
          else LatteConfiguration.in_channels config),
       patch_size := LatteConfiguration.patch_size config,
       extras := learn_sigma config,
       gradient_checkpointing := False,
       y_embedder := (if learn_sigma config = 2 then y_embedder layers else None),
       text_embedding_projection :=
         (if learn_sigma config = 78 then text_embedding_projection layers else None)\<rparr>)"

text \<open>\<^verbatim>\<open>unpatchify\<close>. \<open>isqrt T\<close> is \<^verbatim>\<open>int(T ** 0.5)\<close>. The reshape to (N, h, w, p, p, c) reads
  the flat buffer of each sample; \<open>einsum_flat\<close> is \<^verbatim>\<open>einsum('nhwpqc->nchpwq')\<close> on it, written
  out in row-major order; the last reshape is to (N, c, h * p, h * p).\<close>

primrec isqrt :: "nat \<Rightarrow> nat" where
  "isqrt 0 = 0"
| "isqrt (Suc n) = (if (isqrt n + 1) * (isqrt n + 1) \<le> Suc n then isqrt n + 1 else isqrt n)"

definition einsum_flat :: "nat \<Rightarrow> nat \<Rightarrow> nat \<Rightarrow> nat \<Rightarrow> 'a list \<Rightarrow> 'a list" where
  "einsum_flat h w p c xf =
     concat (map (\<lambda>ch.
       concat (map (\<lambda>hh.
         concat (map (\<lambda>pp.
           concat (map (\<lambda>ww.
             map (\<lambda>qq. xf ! ((((hh * w + ww) * p + pp) * p + qq) * c + ch)) [0..<p])
           [0..<w]))
         [0..<p]))
       [0..<h]))
     [0..<c])"

definition unpatchify :: "Latte \<Rightarrow> t3 \<Rightarrow> error + t4" where
  "unpatchify m x =
     (case shape3 x of (N, T, L) \<Rightarrow>
        if isqrt T * isqrt T \<noteq> T then Inl AssertionError
        else if length (flat3 x)
                  \<noteq> N * isqrt T * isqrt T * patch_size m * patch_size m * out_channels m
        then Inl RuntimeError
        else reshape4 N (out_channels m) (isqrt T * patch_size m) (isqrt T * patch_size m)
               (concat (map (einsum_flat (isqrt T) (isqrt T) (patch_size m) (out_channels m))
                  (pieces N (isqrt T * isqrt T * patch_size m * patch_size m * out_channels m)
                     (flat3 x)))))"

text \<open>\<^verbatim>\<open>make_mask\<close> on the flattened mask (one row per sample), and the three
  \<^verbatim>\<open>rearrange\<close>/\<^verbatim>\<open>repeat\<close> patterns of \<^verbatim>\<open>forward\<close>.\<close>

definition make_mask :: "mat \<Rightarrow> t4" where
  "make_mask attention_mask = map (\<lambda>r. [map (\<lambda>a. map (\<lambda>b. a * b) r) r]) attention_mask"

definition repeat_rows :: "nat \<Rightarrow> mat \<Rightarrow> mat" where
  "repeat_rows c t = concat (map (replicate c) t)"

definition swap_axes :: "nat \<Rightarrow> t3 \<Rightarrow> error + t3" where
  "swap_axes b x =
     (if b = 0 then Inl ZeroDivisionError
      else if length x mod b \<noteq> 0 then Inl EinopsError
      else Inr (concat (map transpose (pieces b (length x div b) x))))"

definition split_batch :: "nat \<Rightarrow> 'a list \<Rightarrow> error + 'a list list" where
  "split_batch b x =
     (if b = 0 then Inl ZeroDivisionError
      else if length x mod b \<noteq> 0 then Inl EinopsError
      else Inr (pieces b (length x div b) x))"

text \<open>The conditioning of \<^verbatim>\<open>forward\<close>. \<open>embed_extras\<close> is the first \<^verbatim>\<open>if self.extras == 2 ...
  elif self.extras == 78 ...\<close>; \<open>block_cond\<close> is the three-way choice of \<open>c\<close> before each block;
  \<open>final_cond\<close> is the two-way choice before the final layer.\<close>

record conditioning =
  timestep_spatial :: mat
  timestep_temp :: mat
  y_spatial :: "mat option"
  y_temp :: "mat option"
  text_embedding_spatial :: "mat option"
  text_embedding_temp :: "mat option"

definition embed_extras ::
  "Latte \<Rightarrow> nat \<Rightarrow> int list option \<Rightarrow> t3 option \<Rightarrow> error + (mat option \<times> mat option)" where
  "embed_extras m batches y text_embedding =
     (if extras m = 2 then
        (case y_embedder m of
           None \<Rightarrow> Inl AttributeError
         | Some ye \<Rightarrow> bindr (ye y (training m)) (\<lambda>yv. Inr (Some yv, None)))
      else if extras m = 78 then
        (case text_embedding of
           None \<Rightarrow> Inl AttributeError
         | Some te \<Rightarrow>
             if batches = 0 \<or> length (flat3 te) mod batches \<noteq> 0 then Inl RuntimeError
             else (case text_embedding_projection m of
                     None \<Rightarrow> Inl AttributeError
                   | Some pr \<Rightarrow>
                       bindr (pr (pieces batches (length (flat3 te) div batches) (flat3 te)))
                         (\<lambda>tv. Inr (None, Some tv))))
      else Inr (None, None))"

definition block_cond :: "int \<Rightarrow> mat \<Rightarrow> mat option \<Rightarrow> mat option \<Rightarrow> error + mat" where
  "block_cond ex ts yv tv =
     (if ex = 2 then (case yv of Some yy \<Rightarrow> ew2 (+) ts yy | None \<Rightarrow> Inl NameError)
      else if ex = 78 then (case tv of Some tt \<Rightarrow> ew2 (+) ts tt | None \<Rightarrow> Inl NameError)
      else Inr ts)"

definition final_cond :: "int \<Rightarrow> mat \<Rightarrow> mat option \<Rightarrow> error + mat" where
  "final_cond ex ts yv =
     (if ex = 2 then (case yv of Some yy \<Rightarrow> ew2 (+) ts yy | None \<Rightarrow> Inl NameError)
      else Inr ts)"

text \<open>The loop \<^verbatim>\<open>for i in range(0, len(self.blocks), 2)\<close>; \<open>first\<close> is \<open>i = 0\<close>. An odd number
  of blocks fails at \<^verbatim>\<open>spatial_block, temp_block = self.blocks[i:i+2]\<close>. With gradient
  checkpointing a block is called through \<^verbatim>\<open>torch.utils.checkpoint\<close>, which returns what
  the block returns.\<close>

fun block_loop ::
  "backends \<Rightarrow> Latte \<Rightarrow> conditioning \<Rightarrow> t4 option \<times> t4 option \<Rightarrow> nat
     \<Rightarrow> TransformerBlock list \<Rightarrow> bool \<Rightarrow> t3 \<Rightarrow> error + t3" where
  "block_loop env m cd masks batches [] first x = Inr x"
| "block_loop env m cd masks batches [blk] first x = Inl ValueError"
| "block_loop env m cd masks batches (spatial_block # temp_block # rest) first x =
     bindr (block_cond (extras m) (timestep_spatial cd) (y_spatial cd)
              (text_embedding_spatial cd)) (\<lambda>c.
     bindr (TransformerBlock_forward env spatial_block x c (fst masks)) (\<lambda>x1.
     bindr (swap_axes batches x1) (\<lambda>x2.
     bindr (if first then ew3 (+) x2 [temp_embed m] else Inr x2) (\<lambda>x3.
     bindr (block_cond (extras m) (timestep_temp cd) (y_temp cd)
              (text_embedding_temp cd)) (\<lambda>c2.
     bindr (TransformerBlock_forward env temp_block x3 c2 (snd masks)) (\<lambda>x4.
     bindr (swap_axes batches x4) (\<lambda>x5.
     block_loop env m cd masks batches rest False x5)))))))"

definition make_conditioning :: "Latte \<Rightarrow> mat \<Rightarrow> mat option \<times> mat option \<Rightarrow> conditioning" where
  "make_conditioning m te ex =
     \<lparr>timestep_spatial = repeat_rows (length (temp_embed m)) te,
      timestep_temp = repeat_rows (length (pos_embed m)) te,
      y_spatial = map_option (repeat_rows (length (temp_embed m))) (fst ex),
      y_temp = map_option (repeat_rows (length (pos_embed m))) (fst ex),
      text_embedding_spatial = map_option (repeat_rows (length (temp_embed m))) (snd ex),
      text_embedding_temp = map_option (repeat_rows (length (pos_embed m))) (snd ex)\<rparr>"

definition forward_masks :: "t4 option \<Rightarrow> t4 option \<times> t4 option" where
  "forward_masks attention_mask =
     (case attention_mask of
        None \<Rightarrow> (None, None)
      | Some am \<Rightarrow>
          (Some (make_mask (map concat (concat am))),
           Some (make_mask (concat (map (\<lambda>mb. transpose (map concat mb)) am)))))"

definition Latte_forward ::
  "backends \<Rightarrow> Latte \<Rightarrow> t5 \<Rightarrow> vec \<Rightarrow> int list option \<Rightarrow> t3 option \<Rightarrow> t4 option
     \<Rightarrow> error + t5" where
  "Latte_forward env m x t y text_embedding attention_mask =
     bindr (x_embedder m (concat x)) (\<lambda>xe.
     bindr (ew3 (+) xe [pos_embed m]) (\<lambda>x0.
     bindr (t_embedder m t) (\<lambda>te.
     bindr (embed_extras m (length x) y text_embedding) (\<lambda>ex.
     bindr (block_loop env m (make_conditioning m te ex) (forward_masks attention_mask)
              (length x) (blocks m) True x0) (\<lambda>x1.
     bindr (final_cond (extras m) (timestep_spatial (make_conditioning m te ex))
              (y_spatial (make_conditioning m te ex))) (\<lambda>c.
     bindr (FinalLayer_forward (final_layer m) x1 c) (\<lambda>x2.
     bindr (unpatchify m x2) (\<lambda>x3.
     split_batch (length x) x3))))))))"

section \<open>The guidance wrapper\<close>

text \<open>\<^verbatim>\<open>torch.split(t, k, dim=0)\<close>: pieces of \<open>k\<close> samples, the whole tensor when \<open>k = 0\<close>.
  \<^verbatim>\<open>torch.cat([a, b], dim=2)\<close> requires equal sizes on every other axis.\<close>

definition split0 :: "nat \<Rightarrow> 'a list \<Rightarrow> 'a list list" where
  "split0 k xs =
     (if k = 0 then [xs]
      else map (\<lambda>i. take k (drop (i * k) xs)) [0..<max 1 ((length xs + k - 1) div k)])"

definition same_hw :: "'a list list list \<Rightarrow> bool" where
  "same_hw ims =
     (case ims of [] \<Rightarrow> True | im # rest \<Rightarrow> list_all (\<lambda>j. map length j = map length im) rest)"

definition cat_dim2 :: "t5 \<Rightarrow> t5 \<Rightarrow> error + t5" where
  "cat_dim2 a b =
     (if length a \<noteq> length b then Inl RuntimeError
      else mapM (\<lambda>(xa, xb).
             if length xa \<noteq> length xb then Inl RuntimeError
             else mapM (\<lambda>(fa, fb). if same_hw (fa @ fb) then Inr (fa @ fb) else Inl RuntimeError)
                    (zip xa xb))
           (zip a b))"

definition forward_with_cfg ::
  "backends \<Rightarrow> Latte \<Rightarrow> t5 \<Rightarrow> vec \<Rightarrow> int list option \<Rightarrow> real \<Rightarrow> t3 option \<Rightarrow> t4 option
     \<Rightarrow> error + t5" where
  "forward_with_cfg env m x t y cfg_scale text_embedding attention_mask =
     bindr (Latte_forward env m (take (length x div 2) x @ take (length x div 2) x) t y
              text_embedding attention_mask) (\<lambda>model_out.
       case split0 (length model_out div 2) (map (take (in_channels m)) model_out) of
         [cond_eps, uncond_eps] \<Rightarrow>
           bindr (ew5 (-) cond_eps uncond_eps) (\<lambda>d.
           bindr (ew5 (+) uncond_eps (map (map (map (map (map ((*) cfg_scale))))) d))
             (\<lambda>half_eps.
           cat_dim2 (half_eps @ half_eps) (map (drop (in_channels m)) model_out)))
       | _ \<Rightarrow> Inl ValueError)"

section \<open>A small instance\<close>

text \<open>
  A model with one head, one channel, patches of size 1, two blocks in the dense
  strategy, identity norms and feed-forward layers, and no optional kernel installed.
  The concrete evaluations below are made on it.
\<close>

definition toy_attention :: Attention where
  "toy_attention =
     \<lparr>num_heads = 1, scale = 1, attention_mode = ''math'', attention_pe_mode = None,
      qkv_w = [[1], [1], [1]], qkv_b = [0, 0, 0], proj_w = [[1]], proj_b = [0],
      attn_drop = (\<lambda>w. w), attn_drop_p = 0, proj_drop = (\<lambda>z. z), eps = 0, causal = True,
      ring_bucket_size = 1024, hw = (1, 1), rope = None, dtype = Float32\<rparr>"

definition toy_block :: TransformerBlock where
  "toy_block =
     \<lparr>norm1 = Inr, attn = toy_attention, norm2 = Inr, mlp = Inr,
      adaLN_w = [[0], [0], [0], [0], [0], [0]], adaLN_b = [0, 0, 0, 0, 0, 0]\<rparr>"

definition toy_backends :: backends where
  "toy_backends =
     \<lparr>parallel_rebased = None, ring_flash_attn_cuda = None,
      scaled_dot_product_attention = (\<lambda>kn q k v mk p s. Inr v)\<rparr>"

definition toy_final :: FinalLayer where
  "toy_final =
     \<lparr>norm_final = Inr, final_adaLN_w = [[0], [0]], final_adaLN_b = [0, 0],
      linear_w = [[1]], linear_b = [0]\<rparr>"

definition toy_latte :: Latte where
  "toy_latte =
     \<lparr>in_channels = 1, out_channels = 1, patch_size = 1, extras = 0, training = False,
      gradient_checkpointing = False,
      x_embedder = (\<lambda>fs. Inr (map (\<lambda>f. [concat (concat f)]) fs)),
      t_embedder = (\<lambda>t. Inr (map (\<lambda>v. [v]) t)),
      y_embedder = None, text_embedding_projection = None,
      pos_embed = [[0]], temp_embed = [[0], [0]],
      blocks = [toy_block, toy_block],
      final_layer = toy_final\<rparr>"

text \<open>The same model in text-conditioned mode, with a final modulation layer whose shift
  is the activation of the conditioning vector, and a configuration that selects this
  mode.\<close>

definition toy_text_latte :: Latte where
  "toy_text_latte =
     toy_latte\<lparr>extras := 78, text_embedding_projection := Some Inr,
       final_layer := toy_final\<lparr>final_adaLN_w := [[1], [0]]\<rparr>\<rparr>"

definition toy_text_config :: LatteConfiguration where
  "toy_text_config =
     \<lparr>LatteConfiguration.in_channels = 1, LatteConfiguration.patch_size = 1, learn_sigma = 78\<rparr>"

text \<open>The small model with a final modulation layer whose shift is the activation of the
  conditioning vector, so that the output depends on the timestep.\<close>

definition toy_time_latte :: Latte where
  "toy_time_latte = toy_latte\<lparr>final_layer := toy_final\<lparr>final_adaLN_w := [[1], [0]]\<rparr>\<rparr>"

text \<open>The small model with a second block of each pair whose feed-forward shift is the
  activation of the conditioning vector, so that the output depends on the conditioning
  that the block loop passes to the blocks; the same model in class-conditioned mode,
  with a label embedder that returns the label as a vector, and in text-conditioned
  mode.\<close>

definition toy_cond_block :: TransformerBlock where
  "toy_cond_block =
     toy_block\<lparr>adaLN_w := [[0], [0], [0], [1], [0], [0]], adaLN_b := [0, 0, 0, 0, 0, 1]\<rparr>"

definition toy_cond_latte :: Latte where
  "toy_cond_latte = toy_latte\<lparr>blocks := [toy_block, toy_cond_block]\<rparr>"

definition toy_label_embedder :: "int list option \<Rightarrow> bool \<Rightarrow> error + mat" where
  "toy_label_embedder y train =
     (case y of None \<Rightarrow> Inl TypeError | Some ls \<Rightarrow> Inr (map (\<lambda>l. [of_int l]) ls))"

definition toy_class_latte :: Latte where
  "toy_class_latte = toy_cond_latte\<lparr>extras := 2, y_embedder := Some toy_label_embedder\<rparr>"

definition toy_text_cond_latte :: Latte where
  "toy_text_cond_latte = toy_cond_latte\<lparr>extras := 78, text_embedding_projection := Some Inr\<rparr>"


section \<open>Evaluation and the error monad\<close>

lemmas model_defs =
  bindr_def pieces_def shape3_def flat3_def flat4_def flat5_def reshape3_def reshape4_def
  bcast_def ew1_def ew2_def ew3_def ew4_def ew5_def unsqueeze1_def modulate_def dot_def
  linear_def linear3_def silu_def chunk_dim1_def adaLN_modulation_def attn_bias_entry_def
  make_attn_bias_def is_nan_def fl_val_def fadd_def bcast_into_def add_bias_def softmax_def
  any_nan_def masked_fill_nan_def nan_recovery_def dense_weights_def split_qkv_def
  qkv_proj_def apply_rope_def qk_scores_def matmul_def attention_math_def
  flash_fast_path_def attention_core_def Attention_forward_def TransformerBlock_forward_def
  FinalLayer_forward_def einsum_flat_def unpatchify_def make_mask_def repeat_rows_def
  swap_axes_def split_batch_def embed_extras_def block_cond_def final_cond_def
  make_conditioning_def forward_masks_def Latte_forward_def split0_def same_hw_def
  cat_dim2_def forward_with_cfg_def
  toy_attention_def toy_block_def toy_backends_def toy_final_def toy_latte_def

lemmas toy_cond_defs =
  toy_cond_block_def toy_cond_latte_def toy_label_embedder_def toy_class_latte_def
  toy_text_cond_latte_def

text \<open>Results of the error monad.\<close>

lemma bindr_Inr_iff: "bindr r f = Inr v \<longleftrightarrow> (\<exists>u. r = Inr u \<and> f u = Inr v)"
  by (cases r) (simp_all add: bindr_def)

lemma bindr_Inr [simp]: "bindr (Inr u) f = f u"
  by (simp add: bindr_def)

lemma bindr_Inl [simp]: "bindr (Inl e) f = Inl e"
  by (simp add: bindr_def)



section \<open>Rounding to the dtype\<close>









section \<open>The mask bias\<close>














section \<open>Fully masked rows and the recovery from not-a-number\<close>











section \<open>Selection of the attention strategy\<close>

text \<open>C3, as the specification states it, fails: with no optional kernel installed the
  constructor accepts the strategy \<^verbatim>\<open>'rebased'\<close> and returns a module; the error comes at
  the first forward call, as an unbound name.\<close>

theorem unavailable_strategy_constructs:
  "\<exists>a. Attention_init 1 1 ''rebased'' None (1, 1) 0 True 1024 toy_attention = Inr a
     \<and> attention_mode a = ''rebased''
     \<and> parallel_rebased toy_backends = None
     \<and> Attention_forward toy_backends a [[[1]]] None = Inl NameError"
  by (simp add: model_defs Attention_init_def upt_rec)

text \<open>C3, amended. Whether the constructor succeeds does not depend on the strategy name,
  which it stores as given: the availability of a kernel is not checked at construction.
  With a strategy whose optional kernel is not installed, or with an unknown strategy
  name, the dispatch raises at every call, so no forward call returns a value: the
  failure comes at forward use and is never silent.\<close>

theorem strategy_checked_at_forward:
  "isl (Attention_init dm heads mode pe hw0 e0 c0 bucket layers)
     = isl (Attention_init dm heads mode' pe hw0 e0 c0 bucket layers)
   \<and> (Attention_init dm heads mode pe hw0 e0 c0 bucket layers = Inr a0
        \<longrightarrow> attention_mode a0 = mode)
   \<and> (attention_mode a = ''rebased'' \<and> parallel_rebased env = None
        \<longrightarrow> isl (attention_core env a B N C q k v mk)
            \<and> (\<forall>out. Attention_forward env a x mk' \<noteq> Inr out))
   \<and> (attention_mode a = ''ring'' \<and> ring_flash_attn_cuda env = None
        \<longrightarrow> isl (attention_core env a B N C q k v mk)
            \<and> (\<forall>out. Attention_forward env a x mk' \<noteq> Inr out))
   \<and> (attention_mode a \<noteq> ''xformers'' \<and> attention_mode a \<noteq> ''flash''
        \<and> attention_mode a \<noteq> ''math'' \<and> attention_mode a \<noteq> ''rebased''
        \<and> attention_mode a \<noteq> ''ring''
        \<longrightarrow> isl (attention_core env a B N C q k v mk)
            \<and> (\<forall>out. Attention_forward env a x mk' \<noteq> Inr out))"
proof -
  have core: "Attention_forward env a x mk' \<noteq> Inr out"
    if h: "\<And>B N C q k v mk u. attention_core env a B N C q k v mk \<noteq> Inr u" for out
  proof
    assume "Attention_forward env a x mk' = Inr out"
    then obtain B N C q k v mk u where "attention_core env a B N C q k v mk = Inr u"
      by (auto simp add: Attention_forward_def bindr_Inr_iff split: prod.splits if_splits)
    with h show False
      by blast
  qed
  show ?thesis
    apply (intro conjI impI allI)
            apply (simp add: Attention_init_def)
           apply (auto simp add: Attention_init_def split: if_splits)[1]
          apply (simp add: attention_core_def)
         apply (rule core, simp add: attention_core_def)
        apply (simp add: attention_core_def)
       apply (rule core, simp add: attention_core_def)
      apply (simp add: attention_core_def)
     apply (rule core, simp add: attention_core_def)
    done
qed

theorem strategy_checked_at_forward_witness:
  "isl (Attention_init 1 1 ''ring'' None (1, 1) 0 True 1024 toy_attention)
     = isl (Attention_init 1 1 ''sparse'' None (1, 1) 0 True 1024 toy_attention)
   \<and> isl (attention_core toy_backends (toy_attention\<lparr>attention_mode := ''rebased''\<rparr>)
        1 1 1 [[[[1]]]] [[[[1]]]] [[[[1]]]] None)
   \<and> (\<forall>out. Attention_forward toy_backends (toy_attention\<lparr>attention_mode := ''ring''\<rparr>)
        [[[1]]] None \<noteq> Inr out)
   \<and> (\<forall>out. Attention_forward toy_backends (toy_attention\<lparr>attention_mode := ''sparse''\<rparr>)
        [[[1]]] None \<noteq> Inr out)"
  using
    strategy_checked_at_forward [where a = "toy_attention\<lparr>attention_mode := ''rebased''\<rparr>"
      and env = toy_backends and dm = 1 and heads = 1 and mode = "''ring''"
      and mode' = "''sparse''" and pe = None and ?hw0.0 = "(1, 1)" and ?e0.0 = 0 and ?c0.0 = True
      and bucket = 1024 and layers = toy_attention and B = 1 and N = 1 and C = 1
      and q = "[[[[1]]]]" and k = "[[[[1]]]]" and v = "[[[[1]]]]" and mk = None]
    strategy_checked_at_forward [where a = "toy_attention\<lparr>attention_mode := ''ring''\<rparr>"
      and env = toy_backends and x = "[[[1]]]" and mk' = None]
    strategy_checked_at_forward [where a = "toy_attention\<lparr>attention_mode := ''sparse''\<rparr>"
      and env = toy_backends and x = "[[[1]]]" and mk' = None]
  by (simp add: toy_attention_def toy_backends_def)

section \<open>Conditioning\<close>

lemma silu_0: "silu 0 = 0"
  by (simp add: silu_def)

lemma silu_3: "silu 3 \<noteq> 0"
proof -
  have "0 < 1 + exp (- (3::real))"
    by (simp add: add_pos_pos)
  then show ?thesis
    by (simp add: silu_def)
qed

text \<open>The small conditioned models: with label 0 or text projection 0 the output is twice
  the input, with 3 it is shifted by \<open>silu 3\<close>, and without conditioning mode the labels
  and the text are ignored.\<close>

lemma eval_class_0:
  "Latte_forward toy_backends toy_class_latte [[[[[5]]], [[[7]]]]] [0] (Some [0]) te None
     = Inr [[[[[10]]], [[[14]]]]]"
  by (simp add: model_defs toy_cond_defs silu_0 upt_rec transpose.simps div_if mod_if
      del: silu_def)

lemma eval_class_3:
  "Latte_forward toy_backends toy_class_latte [[[[[5]]], [[[7]]]]] [0] (Some [3]) te None
     = Inr [[[[[10 + silu 3]]], [[[14 + silu 3]]]]]"
  by (simp add: model_defs toy_cond_defs silu_0 upt_rec transpose.simps div_if mod_if
      del: silu_def)

lemma eval_text_0:
  "Latte_forward toy_backends toy_text_cond_latte [[[[[5]]], [[[7]]]]] [0] y (Some [[[0]]]) None
     = Inr [[[[[10]]], [[[14]]]]]"
  by (simp add: model_defs toy_cond_defs silu_0 upt_rec transpose.simps div_if mod_if
      del: silu_def)

lemma eval_text_3:
  "Latte_forward toy_backends toy_text_cond_latte [[[[[5]]], [[[7]]]]] [0] y (Some [[[3]]]) None
     = Inr [[[[[10 + silu 3]]], [[[14 + silu 3]]]]]"
  by (simp add: model_defs toy_cond_defs silu_0 upt_rec transpose.simps div_if mod_if
      del: silu_def)

lemma eval_plain:
  "Latte_forward toy_backends toy_cond_latte [[[[[5]]], [[[7]]]]] [0] y te None
     = Inr [[[[[10]]], [[[14]]]]]"
  by (simp add: model_defs toy_cond_defs silu_0 upt_rec transpose.simps div_if mod_if
      del: silu_def)

lemma block_pair_steps:
  assumes "block_loop env m cd masks nb (sb # tb # rest) first x0 = Inr out"
  shows "\<exists>c x1 c2 x3 x4 x5.
      block_cond (extras m) (timestep_spatial cd) (y_spatial cd) (text_embedding_spatial cd)
        = Inr c
      \<and> TransformerBlock_forward env sb x0 c (fst masks) = Inr x1
      \<and> block_cond (extras m) (timestep_temp cd) (y_temp cd) (text_embedding_temp cd) = Inr c2
      \<and> TransformerBlock_forward env tb x3 c2 (snd masks) = Inr x4
      \<and> block_loop env m cd masks nb rest False x5 = Inr out"
  using assms by (simp add: bindr_Inr_iff) blast

text \<open>C2. The conditioning mode is the \<open>extras\<close> field, which the constructor copies from
  the configuration. In class-conditioned mode (2) the forward pass does not depend on the
  text embedding, in text-conditioned mode (78) it does not depend on the labels, and in
  every other mode it depends on neither. At most one of the two embeddings is ever
  computed, the label embedding exactly in mode 2 and the text projection exactly in
  mode 78. Whenever the block loop returns on a pair of blocks, it has run the spatial
  and the temporal block of the pair on the timestep vector plus the label embedding in
  mode 2, plus the text projection in mode 78, and on the timestep vector alone
  otherwise, and then the rest of the loop. On the small models the output changes with
  the label in mode 2 and with the text in mode 78, and with neither in mode 0.\<close>

theorem conditioning_mode_selected_at_construction:
  "extras (Latte_init config layers) = learn_sigma config
   \<and> (extras m = 2 \<longrightarrow>
        Latte_forward env m x t y te am = Latte_forward env m x t y te' am)
   \<and> (extras m = 78 \<longrightarrow>
        Latte_forward env m x t y te am = Latte_forward env m x t y' te am)
   \<and> (extras m \<noteq> 2 \<and> extras m \<noteq> 78 \<longrightarrow>
        Latte_forward env m x t y te am = Latte_forward env m x t y' te' am)
   \<and> (embed_extras m b y te = Inr (yo, tx) \<longrightarrow>
        (yo = None \<or> tx = None)
        \<and> (yo \<noteq> None) = (extras m = 2)
        \<and> (tx \<noteq> None) = (extras m = 78))
   \<and> (extras m = 2 \<and> embed_extras m b y te = Inr ex
        \<and> block_loop env m (make_conditioning m tv ex) masks nb (sb # tb # rest) first x0
            = Inr out \<longrightarrow>
        (\<exists>yv c x1 c2 x3 x4 x5.
           ex = (Some yv, None)
           \<and> ew2 (+) (repeat_rows (length (temp_embed m)) tv)
                (repeat_rows (length (temp_embed m)) yv) = Inr c
           \<and> TransformerBlock_forward env sb x0 c (fst masks) = Inr x1
           \<and> ew2 (+) (repeat_rows (length (pos_embed m)) tv)
                (repeat_rows (length (pos_embed m)) yv) = Inr c2
           \<and> TransformerBlock_forward env tb x3 c2 (snd masks) = Inr x4
           \<and> block_loop env m (make_conditioning m tv ex) masks nb rest False x5 = Inr out))
   \<and> (extras m = 78 \<and> embed_extras m b y te = Inr ex
        \<and> block_loop env m (make_conditioning m tv ex) masks nb (sb # tb # rest) first x0
            = Inr out \<longrightarrow>
        (\<exists>xv c x1 c2 x3 x4 x5.
           ex = (None, Some xv)
           \<and> ew2 (+) (repeat_rows (length (temp_embed m)) tv)
                (repeat_rows (length (temp_embed m)) xv) = Inr c
           \<and> TransformerBlock_forward env sb x0 c (fst masks) = Inr x1
           \<and> ew2 (+) (repeat_rows (length (pos_embed m)) tv)
                (repeat_rows (length (pos_embed m)) xv) = Inr c2
           \<and> TransformerBlock_forward env tb x3 c2 (snd masks) = Inr x4
           \<and> block_loop env m (make_conditioning m tv ex) masks nb rest False x5 = Inr out))
   \<and> (extras m \<noteq> 2 \<and> extras m \<noteq> 78 \<and> embed_extras m b y te = Inr ex
        \<and> block_loop env m (make_conditioning m tv ex) masks nb (sb # tb # rest) first x0
            = Inr out \<longrightarrow>
        (\<exists>x1 x3 x4 x5.
           ex = (None, None)
           \<and> TransformerBlock_forward env sb x0 (repeat_rows (length (temp_embed m)) tv)
                (fst masks) = Inr x1
           \<and> TransformerBlock_forward env tb x3 (repeat_rows (length (pos_embed m)) tv)
                (snd masks) = Inr x4
           \<and> block_loop env m (make_conditioning m tv ex) masks nb rest False x5 = Inr out))
   \<and> Latte_forward toy_backends toy_class_latte [[[[[5]]], [[[7]]]]] [0] (Some [0]) None None
       = Inr [[[[[10]]], [[[14]]]]]
   \<and> Latte_forward toy_backends toy_class_latte [[[[[5]]], [[[7]]]]] [0] (Some [3]) None None
       = Inr [[[[[10 + silu 3]]], [[[14 + silu 3]]]]]
   \<and> Latte_forward toy_backends toy_text_cond_latte [[[[[5]]], [[[7]]]]] [0] None
        (Some [[[0]]]) None = Inr [[[[[10]]], [[[14]]]]]
   \<and> Latte_forward toy_backends toy_text_cond_latte [[[[[5]]], [[[7]]]]] [0] None
        (Some [[[3]]]) None = Inr [[[[[10 + silu 3]]], [[[14 + silu 3]]]]]
   \<and> Latte_forward toy_backends toy_cond_latte [[[[[5]]], [[[7]]]]] [0] (Some [3])
        (Some [[[3]]]) None = Inr [[[[[10]]], [[[14]]]]]
   \<and> silu 3 \<noteq> 0"
proof (intro conjI impI)
  show "extras (Latte_init config layers) = learn_sigma config"
    by (simp add: Latte_init_def initialize_weights_def)
  show "Latte_forward env m x t y te am = Latte_forward env m x t y te' am" if "extras m = 2"
    using that by (simp add: Latte_forward_def embed_extras_def)
  show "Latte_forward env m x t y te am = Latte_forward env m x t y' te am" if "extras m = 78"
    using that by (simp add: Latte_forward_def embed_extras_def)
  show "Latte_forward env m x t y te am = Latte_forward env m x t y' te' am"
    if "extras m \<noteq> 2 \<and> extras m \<noteq> 78"
    using that by (simp add: Latte_forward_def embed_extras_def)
  show "yo = None \<or> tx = None" if "embed_extras m b y te = Inr (yo, tx)"
    using that
    by (auto simp add: embed_extras_def bindr_Inr_iff split: if_splits option.splits)
  show "(yo \<noteq> None) = (extras m = 2)" if "embed_extras m b y te = Inr (yo, tx)"
    using that
    by (auto simp add: embed_extras_def bindr_Inr_iff split: if_splits option.splits)
  show "(tx \<noteq> None) = (extras m = 78)" if "embed_extras m b y te = Inr (yo, tx)"
    using that
    by (auto simp add: embed_extras_def bindr_Inr_iff split: if_splits option.splits)
next
  assume a: "extras m = 2 \<and> embed_extras m b y te = Inr ex
        \<and> block_loop env m (make_conditioning m tv ex) masks nb (sb # tb # rest) first x0
            = Inr out"
  then have m2: "extras m = 2" and e: "embed_extras m b y te = Inr ex"
    and bl: "block_loop env m (make_conditioning m tv ex) masks nb (sb # tb # rest) first x0
            = Inr out"
    by blast+
  from m2 e obtain yv where ex: "ex = (Some yv, None)"
    by (auto simp add: embed_extras_def bindr_Inr_iff split: option.splits)
  from block_pair_steps [OF bl] obtain c x1 c2 x3 x4 x5 where
    s1: "block_cond (extras m) (timestep_spatial (make_conditioning m tv ex))
          (y_spatial (make_conditioning m tv ex))
          (text_embedding_spatial (make_conditioning m tv ex)) = Inr c"
    and s2: "TransformerBlock_forward env sb x0 c (fst masks) = Inr x1"
    and s3: "block_cond (extras m) (timestep_temp (make_conditioning m tv ex))
          (y_temp (make_conditioning m tv ex))
          (text_embedding_temp (make_conditioning m tv ex)) = Inr c2"
    and s4: "TransformerBlock_forward env tb x3 c2 (snd masks) = Inr x4"
    and s5: "block_loop env m (make_conditioning m tv ex) masks nb rest False x5 = Inr out"
    by blast
  from s1 m2 have c: "ew2 (+) (repeat_rows (length (temp_embed m)) tv)
      (repeat_rows (length (temp_embed m)) yv) = Inr c"
    by (simp add: ex block_cond_def make_conditioning_def)
  from s3 m2 have c2: "ew2 (+) (repeat_rows (length (pos_embed m)) tv)
      (repeat_rows (length (pos_embed m)) yv) = Inr c2"
    by (simp add: ex block_cond_def make_conditioning_def)
  from ex c s2 c2 s4 s5
  show "\<exists>yv c x1 c2 x3 x4 x5.
           ex = (Some yv, None)
           \<and> ew2 (+) (repeat_rows (length (temp_embed m)) tv)
                (repeat_rows (length (temp_embed m)) yv) = Inr c
           \<and> TransformerBlock_forward env sb x0 c (fst masks) = Inr x1
           \<and> ew2 (+) (repeat_rows (length (pos_embed m)) tv)
                (repeat_rows (length (pos_embed m)) yv) = Inr c2
           \<and> TransformerBlock_forward env tb x3 c2 (snd masks) = Inr x4
           \<and> block_loop env m (make_conditioning m tv ex) masks nb rest False x5 = Inr out"
    by blast
next
  assume a: "extras m = 78 \<and> embed_extras m b y te = Inr ex
        \<and> block_loop env m (make_conditioning m tv ex) masks nb (sb # tb # rest) first x0
            = Inr out"
  then have m78: "extras m = 78" and e: "embed_extras m b y te = Inr ex"
    and bl: "block_loop env m (make_conditioning m tv ex) masks nb (sb # tb # rest) first x0
            = Inr out"
    by blast+
  from m78 e obtain xv where ex: "ex = (None, Some xv)"
    by (auto simp add: embed_extras_def bindr_Inr_iff split: option.splits if_splits)
  from block_pair_steps [OF bl] obtain c x1 c2 x3 x4 x5 where
    s1: "block_cond (extras m) (timestep_spatial (make_conditioning m tv ex))
          (y_spatial (make_conditioning m tv ex))
          (text_embedding_spatial (make_conditioning m tv ex)) = Inr c"
    and s2: "TransformerBlock_forward env sb x0 c (fst masks) = Inr x1"
    and s3: "block_cond (extras m) (timestep_temp (make_conditioning m tv ex))
          (y_temp (make_conditioning m tv ex))
          (text_embedding_temp (make_conditioning m tv ex)) = Inr c2"
    and s4: "TransformerBlock_forward env tb x3 c2 (snd masks) = Inr x4"
    and s5: "block_loop env m (make_conditioning m tv ex) masks nb rest False x5 = Inr out"
    by blast
  from s1 m78 have c: "ew2 (+) (repeat_rows (length (temp_embed m)) tv)
      (repeat_rows (length (temp_embed m)) xv) = Inr c"
    by (simp add: ex block_cond_def make_conditioning_def)
  from s3 m78 have c2: "ew2 (+) (repeat_rows (length (pos_embed m)) tv)
      (repeat_rows (length (pos_embed m)) xv) = Inr c2"
    by (simp add: ex block_cond_def make_conditioning_def)
  from ex c s2 c2 s4 s5
  show "\<exists>xv c x1 c2 x3 x4 x5.
           ex = (None, Some xv)
           \<and> ew2 (+) (repeat_rows (length (temp_embed m)) tv)
                (repeat_rows (length (temp_embed m)) xv) = Inr c
           \<and> TransformerBlock_forward env sb x0 c (fst masks) = Inr x1
           \<and> ew2 (+) (repeat_rows (length (pos_embed m)) tv)
                (repeat_rows (length (pos_embed m)) xv) = Inr c2
           \<and> TransformerBlock_forward env tb x3 c2 (snd masks) = Inr x4
           \<and> block_loop env m (make_conditioning m tv ex) masks nb rest False x5 = Inr out"
    by blast
next
  assume a: "extras m \<noteq> 2 \<and> extras m \<noteq> 78 \<and> embed_extras m b y te = Inr ex
        \<and> block_loop env m (make_conditioning m tv ex) masks nb (sb # tb # rest) first x0
            = Inr out"
  then have m0: "extras m \<noteq> 2" "extras m \<noteq> 78" and e: "embed_extras m b y te = Inr ex"
    and bl: "block_loop env m (make_conditioning m tv ex) masks nb (sb # tb # rest) first x0
            = Inr out"
    by blast+
  from m0 e have ex: "ex = (None, None)"
    by (auto simp add: embed_extras_def)
  from block_pair_steps [OF bl] obtain c x1 c2 x3 x4 x5 where
    s1: "block_cond (extras m) (timestep_spatial (make_conditioning m tv ex))
          (y_spatial (make_conditioning m tv ex))
          (text_embedding_spatial (make_conditioning m tv ex)) = Inr c"
    and s2: "TransformerBlock_forward env sb x0 c (fst masks) = Inr x1"
    and s3: "block_cond (extras m) (timestep_temp (make_conditioning m tv ex))
          (y_temp (make_conditioning m tv ex))
          (text_embedding_temp (make_conditioning m tv ex)) = Inr c2"
    and s4: "TransformerBlock_forward env tb x3 c2 (snd masks) = Inr x4"
    and s5: "block_loop env m (make_conditioning m tv ex) masks nb rest False x5 = Inr out"
    by blast
  from s1 m0 have c: "c = repeat_rows (length (temp_embed m)) tv"
    by (simp add: block_cond_def make_conditioning_def)
  from s3 m0 have c2: "c2 = repeat_rows (length (pos_embed m)) tv"
    by (simp add: block_cond_def make_conditioning_def)
  from ex s2 s4 s5
  show "\<exists>x1 x3 x4 x5.
           ex = (None, None)
           \<and> TransformerBlock_forward env sb x0 (repeat_rows (length (temp_embed m)) tv)
                (fst masks) = Inr x1
           \<and> TransformerBlock_forward env tb x3 (repeat_rows (length (pos_embed m)) tv)
                (snd masks) = Inr x4
           \<and> block_loop env m (make_conditioning m tv ex) masks nb rest False x5 = Inr out"
    unfolding c c2 by blast
next
  show "silu 3 \<noteq> 0"
    by (rule silu_3)
qed (simp_all only: eval_class_0 eval_class_3 eval_text_0 eval_text_3 eval_plain)

theorem conditioning_mode_selected_at_construction_witness:
  "extras (Latte_init toy_text_config toy_latte) = 78
   \<and> Latte_forward toy_backends toy_class_latte [[[[[5]]], [[[7]]]]] [0] (Some [3])
        (Some [[[9]]]) None = Inr [[[[[10 + silu 3]]], [[[14 + silu 3]]]]]
   \<and> Latte_forward toy_backends toy_text_cond_latte [[[[[5]]], [[[7]]]]] [0] (Some [4])
        (Some [[[3]]]) None = Inr [[[[[10 + silu 3]]], [[[14 + silu 3]]]]]
   \<and> Latte_forward toy_backends toy_cond_latte [[[[[5]]], [[[7]]]]] [0] None None None
       = Inr [[[[[10]]], [[[14]]]]]
   \<and> embed_extras toy_class_latte 1 (Some [3]) None = Inr (Some [[3]], None)
   \<and> (Some [[3::real]] \<noteq> None) = (extras toy_class_latte = 2)
   \<and> (\<exists>yv c x1 c2 x3 x4 x5.
         ((Some [[3]], None) :: mat option \<times> mat option) = (Some yv, None)
         \<and> ew2 (+) (repeat_rows (length (temp_embed toy_class_latte)) [[0]])
              (repeat_rows (length (temp_embed toy_class_latte)) yv) = Inr c
         \<and> TransformerBlock_forward toy_backends toy_block [[[5]], [[7]]] c None
             = Inr x1
         \<and> ew2 (+) (repeat_rows (length (pos_embed toy_class_latte)) [[0]])
              (repeat_rows (length (pos_embed toy_class_latte)) yv) = Inr c2
         \<and> TransformerBlock_forward toy_backends toy_cond_block x3 c2 None
             = Inr x4
         \<and> block_loop toy_backends toy_class_latte
              (make_conditioning toy_class_latte [[0]] (Some [[3]], None)) (None, None) 1 []
              False x5 = Inr [[[10 + silu 3]], [[14 + silu 3]]])
   \<and> (\<exists>xv c x1 c2 x3 x4 x5.
         ((None, Some [[3]]) :: mat option \<times> mat option) = (None, Some xv)
         \<and> ew2 (+) (repeat_rows (length (temp_embed toy_text_cond_latte)) [[0]])
              (repeat_rows (length (temp_embed toy_text_cond_latte)) xv) = Inr c
         \<and> TransformerBlock_forward toy_backends toy_block [[[5]], [[7]]] c None
             = Inr x1
         \<and> ew2 (+) (repeat_rows (length (pos_embed toy_text_cond_latte)) [[0]])
              (repeat_rows (length (pos_embed toy_text_cond_latte)) xv) = Inr c2
         \<and> TransformerBlock_forward toy_backends toy_cond_block x3 c2 None
             = Inr x4
         \<and> block_loop toy_backends toy_text_cond_latte
              (make_conditioning toy_text_cond_latte [[0]] (None, Some [[3]])) (None, None) 1 []
              False x5 = Inr [[[10 + silu 3]], [[14 + silu 3]]])
   \<and> (\<exists>x1 x3 x4 x5.
         ((None, None) :: mat option \<times> mat option) = (None, None)
         \<and> TransformerBlock_forward toy_backends toy_block [[[5]], [[7]]]
              (repeat_rows (length (temp_embed toy_cond_latte)) [[0]]) None
             = Inr x1
         \<and> TransformerBlock_forward toy_backends toy_cond_block x3
              (repeat_rows (length (pos_embed toy_cond_latte)) [[0]]) None
             = Inr x4
         \<and> block_loop toy_backends toy_cond_latte
              (make_conditioning toy_cond_latte [[0]] (None, None)) (None, None) 1 []
              False x5 = Inr [[[10]], [[14]]])"
proof -
  note T = conditioning_mode_selected_at_construction
  have c1: "extras (Latte_init toy_text_config toy_latte) = 78"
    using T [where config = toy_text_config and layers = toy_latte]
    by (simp add: toy_text_config_def)
  have m2: "extras toy_class_latte = 2"
    by (simp add: toy_cond_defs)
  have m78: "extras toy_text_cond_latte = 78"
    by (simp add: toy_cond_defs)
  have m0: "extras toy_cond_latte \<noteq> 2 \<and> extras toy_cond_latte \<noteq> 78"
    by (simp add: toy_cond_defs toy_latte_def)
  have w1: "Latte_forward toy_backends toy_class_latte [[[[[5]]], [[[7]]]]] [0] (Some [3])
        (Some [[[9]]]) None = Inr [[[[[10 + silu 3]]], [[[14 + silu 3]]]]]"
    using T [where m = toy_class_latte and env = toy_backends and x = "[[[[[5]]], [[[7]]]]]"
        and t = "[0]" and y = "Some [3]" and te = "Some [[[9]]]" and te' = None and am = None] m2
    by simp
  have w2: "Latte_forward toy_backends toy_text_cond_latte [[[[[5]]], [[[7]]]]] [0] (Some [4])
        (Some [[[3]]]) None = Inr [[[[[10 + silu 3]]], [[[14 + silu 3]]]]]"
    using T [where m = toy_text_cond_latte and env = toy_backends
        and x = "[[[[[5]]], [[[7]]]]]" and t = "[0]" and y = "Some [4]" and y' = None
        and te = "Some [[[3]]]" and am = None] m78
    by simp
  have w3: "Latte_forward toy_backends toy_cond_latte [[[[[5]]], [[[7]]]]] [0] None None None
       = Inr [[[[[10]]], [[[14]]]]]"
    using T [where m = toy_cond_latte and env = toy_backends
        and x = "[[[[[5]]], [[[7]]]]]" and t = "[0]" and y = None and y' = "Some [3]"
        and te = None and te' = "Some [[[3]]]" and am = None] m0
    by simp
  have e2: "embed_extras toy_class_latte 1 (Some [3]) None = Inr (Some [[3]], None)"
    by (simp add: embed_extras_def toy_cond_defs toy_latte_def)
  have e78: "embed_extras toy_text_cond_latte 1 None (Some [[[3]]]) = Inr (None, Some [[3]])"
    by (simp add: embed_extras_def toy_cond_defs toy_latte_def flat3_def pieces_def)
  have e0: "embed_extras toy_cond_latte 1 None None = Inr (None, None)"
    by (simp add: embed_extras_def toy_cond_defs toy_latte_def)
  have w4: "(Some [[3::real]] \<noteq> None) = (extras toy_class_latte = 2)"
    using T [where m = toy_class_latte and b = 1 and y = "Some [3]" and te = None
        and yo = "Some [[3]]" and tx = None] e2
    by blast
  have b2: "block_loop toy_backends toy_class_latte
      (make_conditioning toy_class_latte [[0]] (Some [[3]], None)) (None, None) 1
      [toy_block, toy_cond_block] True [[[5]], [[7]]] = Inr [[[10 + silu 3]], [[14 + silu 3]]]"
    by (simp add: model_defs toy_cond_defs silu_0 upt_rec transpose.simps div_if mod_if
        del: silu_def)
  have b78: "block_loop toy_backends toy_text_cond_latte
      (make_conditioning toy_text_cond_latte [[0]] (None, Some [[3]])) (None, None) 1
      [toy_block, toy_cond_block] True [[[5]], [[7]]] = Inr [[[10 + silu 3]], [[14 + silu 3]]]"
    by (simp add: model_defs toy_cond_defs silu_0 upt_rec transpose.simps div_if mod_if
        del: silu_def)
  have b0: "block_loop toy_backends toy_cond_latte
      (make_conditioning toy_cond_latte [[0]] (None, None)) (None, None) 1
      [toy_block, toy_cond_block] True [[[5]], [[7]]] = Inr [[[10]], [[14]]]"
    by (simp add: model_defs toy_cond_defs silu_0 upt_rec transpose.simps div_if mod_if
        del: silu_def)
  note w5 = T [where m = toy_class_latte and b = 1 and y = "Some [3]" and te = None
      and ex = "(Some [[3]], None)" and env = toy_backends and tv = "[[0]]"
      and masks = "(None, None)" and nb = 1 and sb = toy_block and tb = toy_cond_block
      and rest = "[]" and first = True and ?x0.0 = "[[[5]], [[7]]]"
      and out = "[[[10 + silu 3]], [[14 + silu 3]]]",
      THEN conjunct2, THEN conjunct2, THEN conjunct2, THEN conjunct2, THEN conjunct2,
      THEN conjunct1, THEN mp, OF conjI [OF m2 conjI [OF e2 b2]]]
  note w6 = T [where m = toy_text_cond_latte and b = 1 and y = None and te = "Some [[[3]]]"
      and ex = "(None, Some [[3]])" and env = toy_backends and tv = "[[0]]"
      and masks = "(None, None)" and nb = 1 and sb = toy_block and tb = toy_cond_block
      and rest = "[]" and first = True and ?x0.0 = "[[[5]], [[7]]]"
      and out = "[[[10 + silu 3]], [[14 + silu 3]]]",
      THEN conjunct2, THEN conjunct2, THEN conjunct2, THEN conjunct2, THEN conjunct2,
      THEN conjunct2, THEN conjunct1, THEN mp, OF conjI [OF m78 conjI [OF e78 b78]]]
  note w7 = T [where m = toy_cond_latte and b = 1 and y = None and te = None
      and ex = "(None, None)" and env = toy_backends and tv = "[[0]]"
      and masks = "(None, None)" and nb = 1 and sb = toy_block and tb = toy_cond_block
      and rest = "[]" and first = True and ?x0.0 = "[[[5]], [[7]]]"
      and out = "[[[10]], [[14]]]",
      THEN conjunct2, THEN conjunct2, THEN conjunct2, THEN conjunct2, THEN conjunct2,
      THEN conjunct2, THEN conjunct2, THEN conjunct1, THEN mp,
      OF conjI [OF conjunct1 [OF m0] conjI [OF conjunct2 [OF m0] conjI [OF e0 b0]]]]
  from c1 w1 w2 w3 e2 w4 w5 [unfolded fst_conv snd_conv] w6 [unfolded fst_conv snd_conv]
    w7 [unfolded fst_conv snd_conv]
  show ?thesis
    by (intro conjI)
qed

text \<open>C4. The conditioning of the final layer has the label branch and no text branch: in
  text-conditioned mode it is the timestep vector alone, while every block of the loop
  gets the timestep vector plus the text projection. On the small text-conditioned model
  with timestep embedding 0 and text projection 3 the forward pass returns the input
  unchanged, whereas the final layer applied to the conditioning \<open>0 + 3\<close> shifts every
  entry by \<open>silu 3\<close>, which is not 0.\<close>

theorem final_layer_omits_text:
  "final_cond 78 ts yv = Inr ts
   \<and> block_cond 78 ts yv (Some tv) = ew2 (+) ts tv
   \<and> Latte_forward toy_backends toy_text_latte [[[[[5]]], [[[7]]]]] [0] None (Some [[[3]]]) None
       = Inr [[[[[5]]], [[[7]]]]]
   \<and> FinalLayer_forward (final_layer toy_text_latte) [[[5]], [[7]]] [[0 + 3], [0 + 3]]
       = Inr [[[5 + silu 3]], [[7 + silu 3]]]
   \<and> silu 3 \<noteq> 0"
  apply (intro conjI)
      apply (simp add: final_cond_def)
     apply (simp add: block_cond_def)
    apply (simp add: model_defs toy_text_latte_def silu_0 upt_rec transpose.simps div_if mod_if
      del: silu_def)
   apply (simp add: model_defs toy_text_latte_def silu_0 upt_rec transpose.simps div_if mod_if
      del: silu_def)
  apply (rule silu_3)
  done

section \<open>The guidance wrapper\<close>

text \<open>C1. \<^verbatim>\<open>forward_with_cfg\<close> slices the model output at axis 1, the frame axis, and
  concatenates the two slices at axis 2, the channel axis. On the small model with one
  channel, an input of shape (2, 2, 1, 1, 1) gives an output of shape (2, 1, 2, 1, 1): the
  second frame has become a second channel of the first frame.\<close>

theorem forward_with_cfg_slices_frames:
  "forward_with_cfg toy_backends toy_latte
       [[[[[5]]], [[[7]]]], [[[[11]]], [[[13]]]]] [1, 2] None 7 None None
     = Inr [[[[[5]], [[7]]]], [[[[5]], [[7]]]]]"
  by (simp add: model_defs upt_rec transpose.simps div_if mod_if)

text \<open>C6. The guidance formula \<open>uncond + cfg_scale * (cond - uncond)\<close> is applied to the
  slice \<^verbatim>\<open>model_out[:, :in_channels]\<close>, which is a slice of frames, and the result is
  concatenated to the other frames on the channel axis. On the small model whose output
  is the input plus \<open>silu t\<close>, with timesteps 0 and 3: the plain forward pass on the
  duplicated first half has shape (2, 2, 1, 1, 1); with scale 1 the wrapper returns the
  conditional value 5 of the first frame in both samples, with scale 0 the unconditional
  value \<open>5 + silu 3\<close>, in an output of shape (2, 1, 2, 1, 1) whose second channel is the
  second frame of the plain forward pass.\<close>

theorem guidance_on_frame_slice:
  "Latte_forward toy_backends toy_time_latte
       [[[[[5]]], [[[7]]]], [[[[5]]], [[[7]]]]] [0, 3] None None None
     = Inr [[[[[5]]], [[[7]]]], [[[[5 + silu 3]]], [[[7 + silu 3]]]]]
   \<and> forward_with_cfg toy_backends toy_time_latte
       [[[[[5]]], [[[7]]]], [[[[11]]], [[[13]]]]] [0, 3] None 1 None None
     = Inr [[[[[5]], [[7]]]], [[[[5]], [[7 + silu 3]]]]]
   \<and> forward_with_cfg toy_backends toy_time_latte
       [[[[[5]]], [[[7]]]], [[[[11]]], [[[13]]]]] [0, 3] None 0 None None
     = Inr [[[[[5 + silu 3]], [[7]]]], [[[[5 + silu 3]], [[7 + silu 3]]]]]"
  apply (intro conjI)
    apply (simp add: model_defs toy_time_latte_def silu_0 upt_rec transpose.simps div_if mod_if
      del: silu_def)
   apply (simp add: model_defs toy_time_latte_def silu_0 upt_rec transpose.simps div_if mod_if
      del: silu_def)
  apply (simp add: model_defs toy_time_latte_def silu_0 upt_rec transpose.simps div_if mod_if
      del: silu_def)
  done

section \<open>Unpatchify\<close>

lemma isqrt_bounds: "isqrt n * isqrt n \<le> n \<and> n < (isqrt n + 1) * (isqrt n + 1)"
  by (induction n) (auto simp add: algebra_simps)

lemma isqrt_square: "isqrt (h * h) = h"
proof -
  let ?r = "isqrt (h * h)"
  have a: "?r * ?r \<le> h * h" and b: "h * h < (?r + 1) * (?r + 1)"
    using isqrt_bounds [of "h * h"] by auto
  have "?r \<le> h"
  proof (rule ccontr)
    assume "\<not> ?r \<le> h"
    then have "h + 1 \<le> ?r" by simp
    then have "(h + 1) * (h + 1) \<le> ?r * ?r" by (rule mult_le_mono [OF _ \<open>h + 1 \<le> ?r\<close>])
    with a show False by simp
  qed
  moreover have "h \<le> ?r"
  proof (rule ccontr)
    assume "\<not> h \<le> ?r"
    then have "?r + 1 \<le> h" by simp
    then have "(?r + 1) * (?r + 1) \<le> h * h" by (rule mult_le_mono [OF _ \<open>?r + 1 \<le> h\<close>])
    with b show False by simp
  qed
  ultimately show ?thesis by simp
qed

lemma not_square_isqrt: "(\<forall>h. n \<noteq> h * h) \<Longrightarrow> isqrt n * isqrt n \<noteq> n"
  by metis

lemma length_pieces [simp]: "length (pieces n k xs) = n"
  by (simp add: pieces_def)

lemma pieces_full:
  assumes "n * k \<le> length xs" and "p \<in> set (pieces n k xs)"
  shows "length p = k"
proof -
  from assms(2) obtain i where i: "i < n" and p: "p = take k (drop (i * k) xs)"
    by (auto simp add: pieces_def)
  from i have "Suc i * k \<le> n * k"
    by (intro mult_le_mono1) simp
  with assms(1) have "i * k + k \<le> length xs" by simp
  with p show ?thesis by simp
qed

lemma set_pieces: "p \<in> set (pieces n k xs) \<Longrightarrow> set p \<subseteq> set xs"
  by (auto simp add: pieces_def dest!: in_set_takeD in_set_dropD)

lemma reshape4_shape:
  assumes "reshape4 b h n d xs = Inr r"
  shows "length r = b
    \<and> list_all (\<lambda>im. length im = h
         \<and> list_all (\<lambda>ch. length ch = n \<and> list_all (\<lambda>row. length row = d) ch) im) r"
proof -
  from assms have len: "length xs = b * (h * (n * d))"
    and r: "r = map (\<lambda>p. map (pieces n d) (pieces h (n * d) p)) (pieces b (h * n * d) xs)"
    by (auto simp add: reshape4_def mult.assoc split: if_splits)
  have "length q = d"
    if "p \<in> set (pieces b (h * n * d) xs)" "c \<in> set (pieces h (n * d) p)"
      "q \<in> set (pieces n d c)" for p c q
  proof -
    have "length p = h * n * d"
      using that(1) len by (intro pieces_full [of b _ xs]) (simp_all add: mult.assoc)
    then have "length c = n * d"
      using that(2) by (intro pieces_full [of h _ p]) (simp_all add: mult.assoc)
    then show ?thesis
      using that(3) by (intro pieces_full [of n _ c]) simp_all
  qed
  then show ?thesis
    by (auto simp add: r list_all_iff)
qed

lemma two_not_square: "(2::nat) \<noteq> h * h"
proof (cases h)
  case 0
  then show ?thesis by simp
next
  case (Suc n)
  then show ?thesis by (cases n) auto
qed

lemma unpatchify_shape:
  assumes "unpatchify m x = Inr imgs"
  shows "fst (snd (shape3 x)) = isqrt (fst (snd (shape3 x))) * isqrt (fst (snd (shape3 x)))
    \<and> length imgs = length x
    \<and> list_all (\<lambda>im. length im = out_channels m
         \<and> list_all (\<lambda>ch. length ch = isqrt (fst (snd (shape3 x))) * patch_size m
              \<and> list_all (\<lambda>row. length row = isqrt (fst (snd (shape3 x))) * patch_size m) ch)
              im) imgs"
proof -
  obtain N T L where s: "shape3 x = (N, T, L)"
    by (cases "shape3 x") auto
  then have N: "N = length x"
    by (simp add: shape3_def)
  from assms s have sq: "isqrt T * isqrt T = T"
    and r: "reshape4 N (out_channels m) (isqrt T * patch_size m) (isqrt T * patch_size m)
               (concat (map (einsum_flat (isqrt T) (isqrt T) (patch_size m) (out_channels m))
                  (pieces N (isqrt T * isqrt T * patch_size m * patch_size m * out_channels m)
                     (flat3 x)))) = Inr imgs"
    by (auto simp add: unpatchify_def split: if_splits)
  from reshape4_shape [OF r] sq s N show ?thesis
    by simp
qed

lemma split_batch_set: "split_batch b x = Inr r \<Longrightarrow> p \<in> set r \<Longrightarrow> set p \<subseteq> set x"
  by (auto simp add: split_batch_def split: if_splits dest: set_pieces)

lemma Latte_forward_unpatchify:
  assumes "Latte_forward env m v t y te am = Inr out"
  shows "\<exists>x2 x3. unpatchify m x2 = Inr x3 \<and> split_batch (length v) x3 = Inr out"
  using assms by (auto simp add: Latte_forward_def bindr_Inr_iff)

text \<open>C10. \<^verbatim>\<open>unpatchify\<close> takes \<open>h = w = int(T ** 0.5)\<close> for \<open>T\<close> tokens per frame, which is the
  exact root of a perfect square, and fails its assertion for every \<open>T\<close> that is not a
  perfect square. When it returns, \<open>T = h * h\<close> and every image has \<open>out_channels\<close> channels
  of \<open>h * patch\<close> rows and \<open>h * patch\<close> columns: the height count is used for both axes. So
  every channel image that \<^verbatim>\<open>forward\<close> returns is square.\<close>

theorem unpatchify_square:
  "isqrt (h * h) = h
   \<and> ((\<forall>h'. fst (snd (shape3 x)) \<noteq> h' * h') \<longrightarrow> unpatchify m x = Inl AssertionError)
   \<and> (unpatchify m x = Inr imgs \<longrightarrow>
        fst (snd (shape3 x)) = isqrt (fst (snd (shape3 x))) * isqrt (fst (snd (shape3 x)))
        \<and> length imgs = length x
        \<and> list_all (\<lambda>im. length im = out_channels m
             \<and> list_all (\<lambda>ch. length ch = isqrt (fst (snd (shape3 x))) * patch_size m
                  \<and> list_all (\<lambda>row. length row = isqrt (fst (snd (shape3 x))) * patch_size m) ch)
                  im) imgs)
   \<and> (Latte_forward env m v t y te am = Inr out \<longrightarrow>
        list_all (list_all (list_all (\<lambda>ch. list_all (\<lambda>row. length row = length ch) ch))) out)"
proof (intro conjI impI)
  show "isqrt (h * h) = h"
    by (rule isqrt_square)
  show "unpatchify m x = Inl AssertionError" if "\<forall>h'. fst (snd (shape3 x)) \<noteq> h' * h'"
    using not_square_isqrt [OF that]
    by (cases "shape3 x") (simp add: unpatchify_def)
  show "fst (snd (shape3 x)) = isqrt (fst (snd (shape3 x))) * isqrt (fst (snd (shape3 x)))"
    if "unpatchify m x = Inr imgs"
    using unpatchify_shape [OF that] by simp
  show "length imgs = length x" if "unpatchify m x = Inr imgs"
    using unpatchify_shape [OF that] by simp
  show "list_all (\<lambda>im. length im = out_channels m
             \<and> list_all (\<lambda>ch. length ch = isqrt (fst (snd (shape3 x))) * patch_size m
                  \<and> list_all (\<lambda>row. length row = isqrt (fst (snd (shape3 x))) * patch_size m) ch)
                  im) imgs"
    if "unpatchify m x = Inr imgs"
    using unpatchify_shape [OF that] by simp
  show "list_all (list_all (list_all (\<lambda>ch. list_all (\<lambda>row. length row = length ch) ch))) out"
    if "Latte_forward env m v t y te am = Inr out"
  proof -
    from Latte_forward_unpatchify [OF that] obtain x2 x3
      where u: "unpatchify m x2 = Inr x3" and sp: "split_batch (length v) x3 = Inr out"
      by blast
    have "list_all (\<lambda>row. length row = length ch) ch"
      if "smp \<in> set out" "im \<in> set smp" "ch \<in> set im" for smp im ch
    proof -
      from split_batch_set [OF sp that(1)] that(2) have "im \<in> set x3" by auto
      with unpatchify_shape [OF u] that(3) show ?thesis
        by (auto simp add: list_all_iff)
    qed
    then show ?thesis
      by (auto simp add: list_all_iff)
  qed
qed

theorem unpatchify_square_witness:
  "isqrt (3 * 3) = 3
   \<and> unpatchify toy_latte [[[1], [2]]] = Inl AssertionError
   \<and> unpatchify toy_latte [[[1], [2], [3], [4]]] = Inr [[[[1, 2], [3, 4]]]]
   \<and> list_all (list_all (list_all (\<lambda>ch. list_all (\<lambda>row. length row = length ch) ch)))
        [[[[[5::real]]], [[[7]]]], [[[[11]]], [[[13]]]]]"
proof -
  have s: "fst (snd (shape3 [[[1::real], [2]]])) = 2"
    by (simp add: shape3_def)
  have a: "\<forall>h'. fst (snd (shape3 [[[1::real], [2]]])) \<noteq> h' * h'"
    unfolding s using two_not_square by blast
  have b: "unpatchify toy_latte [[[1], [2], [3], [4]]] = Inr [[[[1, 2], [3, 4]]]]"
    by (simp add: model_defs upt_rec eval_nat_numeral)
  have c: "Latte_forward toy_backends toy_latte [[[[[5]]], [[[7]]]], [[[[11]]], [[[13]]]]]
      [1, 2] None None None = Inr [[[[[5]]], [[[7]]]], [[[[11]]], [[[13]]]]]"
    by (simp add: model_defs upt_rec transpose.simps div_if mod_if)
  from unpatchify_square [of 3 "[[[1], [2]]]" toy_latte "[[[[1, 2], [3, 4]]]]" toy_backends
      "[[[[[5]]], [[[7]]]], [[[[11]]], [[[13]]]]]" "[1, 2]" None None None
      "[[[[[5]]], [[[7]]]], [[[[11]]], [[[13]]]]]"] a b c
  show ?thesis
    by simp
qed

section \<open>Zero initialisation\<close>

text \<open>Multiplying by 1 and adding 0, broadcast over a tensor whose rows have the width
  of the shift, return the tensor.\<close>

lemma mapM_Inr_iff: "mapM f xs = Inr ys \<longleftrightarrow> list_all2 (\<lambda>x y. f x = Inr y) xs ys"
proof (induction xs arbitrary: ys)
  case Nil
  show ?case by auto
next
  case (Cons x xs)
  show ?case
    by (cases ys) (auto simp add: bindr_Inr_iff Cons.IH)
qed





















end
